theory Spec2Isabelle
  imports Main "HOL-Library.Stream"
begin

section \<open>Go values, panics and logger calls\<close>

text \<open>
  The two bootstraps are \<^verbatim>\<open>src/todo/main.go\<close> (PostgreSQL, logrus, Jaeger; called the
  todo bootstrap below) and \<^verbatim>\<open>src/unnamed/part_000\<close> (go-cloud, Mongo, the standard
  logger; called the go-cloud bootstrap below).

  A value of Go's \<^verbatim>\<open>interface{}\<close> is kept by its dynamic kind: a string, an error
  (with its \<^verbatim>\<open>Error()\<close> text), a value of another dynamic type (with the name of
  that type), or one of the two errors the runtime itself panics with in this program:
  that of a failed single-result type assertion, and that of using a nil pointer or
  calling a nil function.
\<close>

datatype go_value =
    GoString string
  | GoError string
  | GoOther string
  | TypeAssertionError
  | NilDereference

text \<open>The type assertion \<^verbatim>\<open>x.(string)\<close>: it yields the string, or fails.\<close>

fun assert_string :: "go_value \<Rightarrow> string option" where
  "assert_string (GoString s) = Some s"
| "assert_string (GoError e) = None"
| "assert_string (GoOther ty) = None"
| "assert_string TypeAssertionError = None"
| "assert_string NilDereference = None"

text \<open>
  The log is the sequence of calls made to the logger, each with its format string and
  its arguments as the source passes them. \<^verbatim>\<open>Std\<close> calls go to the standard library's
  \<^verbatim>\<open>log\<close> package (the go-cloud bootstrap), \<^verbatim>\<open>Lr\<close> calls to logrus (the todo
  bootstrap). Only logrus attaches a severity to an entry.
\<close>

datatype level = PanicLevel | FatalLevel | ErrorLevel | WarnLevel | InfoLevel | DebugLevel

datatype log_call =
    StdPrintf string "go_value list"
  | StdPrintln "go_value list"
  | StdFatal "go_value list"
  | StdFatalf string "go_value list"
  | LrErrorf string "go_value list"
  | LrFatalf string "go_value list"
  | LrPrintln "go_value list"

fun severity :: "log_call \<Rightarrow> level option" where
  "severity (StdPrintf f as) = None"
| "severity (StdPrintln as) = None"
| "severity (StdFatal as) = None"
| "severity (StdFatalf f as) = None"
| "severity (LrErrorf f as) = Some ErrorLevel"
| "severity (LrFatalf f as) = Some FatalLevel"
| "severity (LrPrintln as) = Some InfoLevel"

section \<open>The application struct and the watcher of the message of the day\<close>

text \<open>
  \<^verbatim>\<open>type application struct { srv; grpcServer; db; mu sync.RWMutex; motd string }\<close>.
  The three backends are opaque handles. The mutex carries no data: in this sequential
  embedding \<^verbatim>\<open>Lock\<close> and \<^verbatim>\<open>Unlock\<close> bracket the assignment and change nothing else.
\<close>

record application =
  srv :: nat
  grpcServer :: nat
  db :: nat
  motd :: string

text \<open>
  \<^verbatim>\<open>newApplication\<close> fills the three backends; Go zero-initialises \<^verbatim>\<open>motd\<close> to the
  empty string. It also starts the watcher goroutine, which is \<open>watchMOTDVar\<close> below.
\<close>

definition newApplication :: "nat \<Rightarrow> nat \<Rightarrow> nat \<Rightarrow> application" where
  "newApplication s d g = \<lparr>srv = s, grpcServer = g, db = d, motd = []\<rparr>"

text \<open>
  The state the watcher works on: the application and the log. One call of
  \<^verbatim>\<open>v.Watch(ctx)\<close> returns an error or a snapshot with a value.
\<close>

record proc =
  app :: application
  logged :: "log_call list"

datatype watch_result = WatchError string | Snapshot go_value

definition emit :: "log_call \<Rightarrow> proc \<Rightarrow> proc" where
  "emit l s = s\<lparr>logged := logged s @ [l]\<rparr>"

text \<open>
  One pass through the body of the \<^verbatim>\<open>for\<close> loop of \<^verbatim>\<open>watchMOTDVar\<close>. \<open>Again\<close> is
  reaching the end of the body or its \<^verbatim>\<open>continue\<close>: the loop goes back to
  \<^verbatim>\<open>v.Watch\<close> at once. \<open>Panicked\<close> is the failed type assertion, raised after the
  \<^verbatim>\<open>log.Println\<close> and the \<^verbatim>\<open>Lock\<close>, before the assignment.
\<close>

datatype iteration = Again | Panicked go_value

definition watch_iteration :: "watch_result \<Rightarrow> proc \<Rightarrow> iteration \<times> proc" where
  "watch_iteration r s =
     (case r of
        WatchError e \<Rightarrow>
          (Again, emit (StdPrintf ''watch MOTD variable: %v'' [GoError e]) s)
      | Snapshot v \<Rightarrow>
          (let s1 = emit (StdPrintln [GoString ''updated MOTD to'', v]) s in
           case assert_string v of
             None \<Rightarrow> (Panicked TypeAssertionError, s1)
           | Some str \<Rightarrow> (Again, s1\<lparr>app := (app s1)\<lparr>motd := str\<rparr>\<rparr>)))"

text \<open>
  The loop itself, over the stream of results that \<^verbatim>\<open>v.Watch\<close> returns. It has no
  \<^verbatim>\<open>break\<close> and no \<^verbatim>\<open>return\<close>: it ends only by a panic, and running forever is the
  value \<open>None\<close>. \<open>Returned\<close> is how a goroutine ends normally; \<open>Crashed\<close> is an
  unrecovered panic, which ends the whole process.
\<close>

datatype goroutine_end = Returned | Crashed go_value

partial_function (option) watchMOTDVar ::
  "watch_result stream \<Rightarrow> proc \<Rightarrow> (goroutine_end \<times> proc) option" where
  "watchMOTDVar ws s =
     (case watch_iteration (shd ws) s of
        (Again, s') \<Rightarrow> watchMOTDVar (stl ws) s'
      | (Panicked p, s') \<Rightarrow> Some (Crashed p, s'))"

text \<open>Go ends a process whose goroutine panics without recovery with status 2.\<close>

definition exit_status_of_goroutine :: "goroutine_end \<Rightarrow> nat option" where
  "exit_status_of_goroutine e = (case e of Returned \<Rightarrow> None | Crashed p \<Rightarrow> Some 2)"

text \<open>
  A watch result on which the loop body cannot panic: an error, or a snapshot whose value
  passes the type assertion.
\<close>

fun harmless :: "watch_result \<Rightarrow> bool" where
  "harmless (WatchError e) = True"
| "harmless (Snapshot v) = (assert_string v \<noteq> None)"




section \<open>The panic handler and the interceptor chain\<close>

text \<open>
  The status codes of \<^verbatim>\<open>google.golang.org/grpc/codes\<close>, and the error that
  \<^verbatim>\<open>status.Errorf(c, format, args...)\<close> builds, kept with its format and arguments.
\<close>

datatype codes =
    OK | Canceled | Unknown | InvalidArgument | DeadlineExceeded | NotFound
  | AlreadyExists | PermissionDenied | ResourceExhausted | FailedPrecondition | Aborted
  | OutOfRange | Unimplemented | Internal | Unavailable | DataLoss | Unauthenticated

record grpc_status =
  st_code :: codes
  st_format :: string
  st_args :: "go_value list"

definition status_Errorf :: "codes \<Rightarrow> string \<Rightarrow> go_value list \<Rightarrow> grpc_status" where
  "status_Errorf c f as = \<lparr>st_code = c, st_format = f, st_args = as\<rparr>"

text \<open>
  \<^verbatim>\<open>runtime.Stack(buf, all)\<close> formats the trace of the calling goroutine, followed when
  \<^verbatim>\<open>all\<close> is true by the traces of all other goroutines, into \<^verbatim>\<open>buf\<close>, and writes no
  more than \<^verbatim>\<open>len(buf)\<close> bytes. The function below gives the buffer after the call.
\<close>

record runtime =
  calling_goroutine :: string
  other_goroutines :: string

definition runtime_Stack :: "string \<Rightarrow> bool \<Rightarrow> runtime \<Rightarrow> string" where
  "runtime_Stack buf all rt =
     (let tr = calling_goroutine rt @ (if all then other_goroutines rt else []);
          n = min (length buf) (length tr)
      in take n tr @ drop n buf)"

text \<open>
  \<^verbatim>\<open>panicHandler\<close> of the todo bootstrap: a buffer of \<^verbatim>\<open>1<<16\<close> zero bytes, the stack
  of all goroutines written into it, the whole buffer logged with logrus'
  \<^verbatim>\<open>Errorf\<close>, and an error of code \<^verbatim>\<open>Internal\<close> returned.
\<close>

definition panicHandler ::
  "go_value \<Rightarrow> runtime \<Rightarrow> log_call list \<Rightarrow> grpc_status \<times> log_call list" where
  "panicHandler p rt lg =
     (let buf = runtime_Stack (replicate (2 ^ 16) (CHR 0x00)) True rt
      in (status_Errorf Internal ''%s'' [p],
          lg @ [LrErrorf ''panic recovered: %+v'' [GoString buf]]))"

text \<open>
  \<^verbatim>\<open>panicHandler\<close> of the go-cloud bootstrap: the same, logged with the standard
  library's \<^verbatim>\<open>log.Printf\<close>.
\<close>

definition panicHandler_gocloud ::
  "go_value \<Rightarrow> runtime \<Rightarrow> log_call list \<Rightarrow> grpc_status \<times> log_call list" where
  "panicHandler_gocloud p rt lg =
     (let buf = runtime_Stack (replicate (2 ^ 16) (CHR 0x00)) True rt
      in (status_Errorf Internal ''%s'' [p],
          lg @ [StdPrintf ''panic recovered: %+v'' [GoString buf]]))"

text \<open>
  A call ends with a reply or an error status, or it panics. The server's state during a
  call: what the runtime would print as the stacks, the events of the interceptor
  stages, and the log.
\<close>

datatype 'r reply = Reply 'r | Failure grpc_status

datatype 'r outcome = Done "'r reply" | Panic go_value

fun code_of :: "'r reply \<Rightarrow> codes" where
  "code_of (Reply r) = OK"
| "code_of (Failure st) = st_code st"

datatype stage = Tags | Tracing | Metrics | Logging | Recovery

datatype call_event =
    Enter stage
  | Handler
  | Leave stage codes
  | Recovered go_value

record server =
  stacks :: runtime
  events :: "call_event list"
  logs :: "log_call list"

type_synonym ('q, 'r) handler = "'q \<Rightarrow> server \<Rightarrow> 'r outcome \<times> server"

type_synonym ('q, 'r) interceptor = "('q, 'r) handler \<Rightarrow> ('q, 'r) handler"

definition mark :: "call_event \<Rightarrow> server \<Rightarrow> server" where
  "mark e w = w\<lparr>events := events w @ [e]\<rparr>"

text \<open>The registered service method: a function of the request that may panic.\<close>

definition invoke :: "('q \<Rightarrow> 'r outcome) \<Rightarrow> ('q, 'r) handler" where
  "invoke f q w = (f q, mark Handler w)"

text \<open>
  The interceptors come from \<^verbatim>\<open>go-grpc-middleware\<close> and \<^verbatim>\<open>go-grpc-prometheus\<close>, outside
  this repository. The tagging, tracing, metrics and logging interceptors share one call
  pattern: work before, one call of the next handler, work after on what it returned.
  None of them recovers: when the next handler panics, the panic unwinds through the
  stage and the work after is skipped. \<open>Leave st c\<close> records that the call made by stage
  \<open>st\<close> returned, with code \<open>c\<close>.
\<close>

definition observing :: "stage \<Rightarrow> ('q, 'r) interceptor" where
  "observing st h q w =
     (case h q (mark (Enter st) w) of
        (Done r, w') \<Rightarrow> (Done r, mark (Leave st (code_of r)) w')
      | (Panic p, w') \<Rightarrow> (Panic p, w'))"

text \<open>
  The recovery interceptor calls the next handler under a deferred \<^verbatim>\<open>recover\<close>; on a
  panic it returns the error that the configured recovery handler makes of the panic
  value.
\<close>

definition recovering ::
  "(go_value \<Rightarrow> runtime \<Rightarrow> log_call list \<Rightarrow> grpc_status \<times> log_call list)
     \<Rightarrow> ('q, 'r) interceptor" where
  "recovering rh h q w =
     (case h q (mark (Enter Recovery) w) of
        (Done r, w') \<Rightarrow> (Done r, w')
      | (Panic p, w') \<Rightarrow>
          (case rh p (stacks w') (logs w') of
             (st, lg) \<Rightarrow> (Done (Failure st), (mark (Recovered p) w')\<lparr>logs := lg\<rparr>)))"

text \<open>
  \<^verbatim>\<open>ChainUnaryServer(one, two, three)\<close> runs \<^verbatim>\<open>one\<close> before \<^verbatim>\<open>two\<close> before
  \<^verbatim>\<open>three\<close>: each interceptor gets the rest of the chain, ending in the handler, as
  its next handler. \<^verbatim>\<open>ChainStreamServer\<close> does the same for streaming calls.
\<close>

fun ChainUnaryServer :: "('q, 'r) interceptor list \<Rightarrow> ('q, 'r) interceptor" where
  "ChainUnaryServer [] h = h"
| "ChainUnaryServer (i # is) h = i (ChainUnaryServer is h)"

fun ChainStreamServer :: "('q, 'r) interceptor list \<Rightarrow> ('q, 'r) interceptor" where
  "ChainStreamServer [] h = h"
| "ChainStreamServer (i # is) h = i (ChainStreamServer is h)"

text \<open>
  The two chains that \<^verbatim>\<open>start\<close> of the todo bootstrap gives to \<^verbatim>\<open>grpc.NewServer\<close>,
  in the order of the source: \<^verbatim>\<open>grpc_ctxtags\<close>, \<^verbatim>\<open>grpc_opentracing\<close>,
  \<^verbatim>\<open>grpc_prometheus\<close>, \<^verbatim>\<open>grpc_logrus\<close>, \<^verbatim>\<open>grpc_recovery\<close> with \<^verbatim>\<open>panicHandler\<close>.
\<close>

definition StreamInterceptor :: "('q, 'r) interceptor" where
  "StreamInterceptor =
     ChainStreamServer
       [observing Tags, observing Tracing, observing Metrics, observing Logging,
        recovering panicHandler]"

definition UnaryInterceptor :: "('q, 'r) interceptor" where
  "UnaryInterceptor =
     ChainUnaryServer
       [observing Tags, observing Tracing, observing Metrics, observing Logging,
        recovering panicHandler]"

text \<open>
  The server dispatching a sequence of calls through a handler. A panic that reaches the
  server is not recovered by anything: the process dies and the remaining calls are not
  served.
\<close>

datatype 'r served = Alive "'r reply list" | Dead "'r reply list" go_value

fun serve :: "('q, 'r) handler \<Rightarrow> 'q list \<Rightarrow> server \<Rightarrow> 'r served \<times> server" where
  "serve h [] w = (Alive [], w)"
| "serve h (q # qs) w =
     (case h q w of
        (Panic p, w') \<Rightarrow> (Dead [] p, w')
      | (Done r, w') \<Rightarrow>
          (case serve h qs w' of
             (Alive rs, w'') \<Rightarrow> (Alive (r # rs), w'')
           | (Dead rs p, w'') \<Rightarrow> (Dead (r # rs) p, w'')))"

text \<open>What the client of a call gets from a server that recovers with \<open>Internal\<close>.\<close>

fun client_sees :: "'r outcome \<Rightarrow> 'r reply" where
  "client_sees (Done r) = r"
| "client_sees (Panic p) = Failure (status_Errorf Internal ''%s'' [p])"

section \<open>The startup sequences\<close>

text \<open>
  \<^verbatim>\<open>c.String(name)\<close> reads a flag of the command line. What the outside world answers
  to the calls of a startup is its environment: for each call that can fail, the error
  it returns, or \<open>None\<close> when it succeeds. \<^verbatim>\<open>http.ListenAndServe\<close> returns only with an
  error; \<open>None\<close> there means that it serves for ever. \<^verbatim>\<open>setupLocal\<close> is generated code
  outside the given sources: the environment gives the three values it returns, the
  application (or nil), whether the cleanup function is non-nil, and the error.
\<close>

type_synonym cli_context = "string \<Rightarrow> string"

record env =
  setupLocal :: "application option \<times> bool \<times> string option"
  net_Listen :: "string option"
  cfg_New :: "string option"
  grpc_Dial :: "string option"
  RegisterTodoServiceHandler :: "string option"
  http_ListenAndServe :: "string option"

text \<open>
  A startup is observed by the effects it has, in order, and by how it ends. The
  resources are the ones \<^verbatim>\<open>start\<close> acquires by itself; what \<^verbatim>\<open>setupLocal\<close> acquired
  and what its cleanup releases is not visible in the sources, so that cleanup is the one
  opaque effect \<open>Cleanup\<close>.
\<close>

datatype resource = Listener string | Tracer | Store | ClientConn string

datatype goroutine = MetricsEndpoint string | GrpcServe string

datatype effect =
    Log log_call
  | NetListen string
  | GrpcDial string
  | HttpListenAndServe string
  | Acquire resource
  | Release resource
  | Cleanup
  | SetupLocal
  | NewServer
  | CreateTable
  | RegisterService
  | PrometheusRegister
  | RegisterGateway
  | Go goroutine

text \<open>
  \<open>OsExit n\<close> is \<^verbatim>\<open>os.Exit(n)\<close>, which \<^verbatim>\<open>log.Fatal\<close> and \<^verbatim>\<open>log.Fatalf\<close> call with 1
  after logging: deferred calls do not run. \<open>PanicExit\<close> is a panic that leaves
  \<^verbatim>\<open>start\<close>: deferred calls run, then the runtime ends the process with status 2.
  \<open>Return\<close> is \<^verbatim>\<open>start\<close> returning, after which \<^verbatim>\<open>main\<close> returns with status 0.
  \<open>ServesForever\<close> is \<^verbatim>\<open>start\<close> staying in \<^verbatim>\<open>http.ListenAndServe\<close>.
\<close>

datatype exit = OsExit nat | PanicExit go_value | Return | ServesForever

fun exit_status :: "exit \<Rightarrow> nat option" where
  "exit_status (OsExit n) = Some n"
| "exit_status (PanicExit p) = Some 2"
| "exit_status Return = Some 0"
| "exit_status ServesForever = None"


subsection \<open>The todo bootstrap\<close>

text \<open>
  \<^verbatim>\<open>start\<close> of \<^verbatim>\<open>src/todo/main.go\<close>, in three parts: up to the tracer, from the chain to
  the dial, and the gateway. The one deferred call is \<^verbatim>\<open>closer.Close()\<close>, registered
  once the tracer exists.
\<close>

definition start_gateway :: "cli_context \<Rightarrow> env \<Rightarrow> effect list \<Rightarrow> effect list \<times> exit" where
  "start_gateway c e t =
     (case RegisterTodoServiceHandler e of
        Some err \<Rightarrow>
          (t @ [RegisterGateway, Release Tracer], PanicExit (GoString ''Cannot serve http api''))
      | None \<Rightarrow>
          (case http_ListenAndServe e of
             None \<Rightarrow> (t @ [RegisterGateway, HttpListenAndServe (c ''bind-http'')], ServesForever)
           | Some err \<Rightarrow>
               (t @ [RegisterGateway, HttpListenAndServe (c ''bind-http''), Release Tracer],
                Return)))"

definition start_serving :: "cli_context \<Rightarrow> env \<Rightarrow> effect list \<Rightarrow> effect list \<times> exit" where
  "start_serving c e t =
     (let t1 = t @ [NewServer, Acquire Store, CreateTable, PrometheusRegister,
                    Go (MetricsEndpoint (c ''bind-prometheus-http'')),
                    Log (LrPrintln [GoString ''Starting Todo service..'']),
                    Go (GrpcServe (c ''bind-grpc'')),
                    GrpcDial (c ''bind-grpc'')]
      in case grpc_Dial e of
           Some err \<Rightarrow>
             (t1 @ [Release Tracer], PanicExit (GoString ''Couldn't contact grpc server''))
         | None \<Rightarrow> start_gateway c e (t1 @ [Acquire (ClientConn (c ''bind-grpc''))]))"

definition start :: "cli_context \<Rightarrow> env \<Rightarrow> effect list \<times> exit" where
  "start c e =
     (case net_Listen e of
        Some err \<Rightarrow>
          ([NetListen (c ''bind-grpc''),
            Log (LrFatalf ''Failed to listen: %v'' [GoString (c ''bind-grpc'')])],
           OsExit 1)
      | None \<Rightarrow>
          (case cfg_New e of
             Some err \<Rightarrow>
               ([NetListen (c ''bind-grpc''), Acquire (Listener (c ''bind-grpc'')),
                 Log (LrFatalf ''Cannot initialize Jaeger Tracer %s'' [GoError err])],
                OsExit 1)
           | None \<Rightarrow>
               start_serving c e
                 [NetListen (c ''bind-grpc''), Acquire (Listener (c ''bind-grpc'')),
                  Acquire Tracer]))"

subsection \<open>The go-cloud bootstrap\<close>

definition grpcAddr :: "cli_context \<Rightarrow> string" where
  "grpcAddr c = ''127.0.0.1:'' @ c ''bind-grpc''"

definition httpAddr :: "cli_context \<Rightarrow> string" where
  "httpAddr c = ''127.0.0.1:'' @ c ''bind-http''"

text \<open>
  The deferred \<^verbatim>\<open>cleanup()\<close>, run when \<^verbatim>\<open>start\<close> returns or panics. Calling a nil
  function panics.
\<close>

definition run_deferred :: "bool \<Rightarrow> effect list \<Rightarrow> exit \<Rightarrow> effect list \<times> exit" where
  "run_deferred cleanup t ex =
     (if cleanup then (t @ [Cleanup], ex) else (t, PanicExit NilDereference))"

text \<open>
  \<^verbatim>\<open>start\<close> of \<^verbatim>\<open>src/unnamed/part_000\<close>, in three parts: the gateway (from
  \<^verbatim>\<open>grpc_runtime.NewServeMux()\<close> on), the part after \<^verbatim>\<open>defer cleanup()\<close>, and the
  switch on the environment with the check of the error.
\<close>

definition gocloud_gateway ::
  "cli_context \<Rightarrow> env \<Rightarrow> bool \<Rightarrow> effect list \<Rightarrow> effect list \<times> exit" where
  "gocloud_gateway c e cleanup t =
     (let t1 = t @ [GrpcDial (grpcAddr c)]
               @ (case grpc_Dial e of
                    Some err \<Rightarrow> [Log (StdPrintf (''Couldn't contact grpc server: '' @ err) [])]
                  | None \<Rightarrow> [Acquire (ClientConn (grpcAddr c))]);
          t2 = t1 @ [RegisterGateway]
               @ (case RegisterTodoServiceHandler e of
                    Some err \<Rightarrow> [Log (StdPrintf (''Cannot serve http api, '' @ err) [])]
                  | None \<Rightarrow> []);
          t3 = t2 @ [PrometheusRegister,
                     Log (StdPrintln [GoString (''Starting HTTP service... '' @ httpAddr c)]),
                     HttpListenAndServe (httpAddr c)]
      in case http_ListenAndServe e of
           None \<Rightarrow> (t3, ServesForever)
         | Some err \<Rightarrow> run_deferred cleanup t3 Return)"

definition gocloud_serving ::
  "cli_context \<Rightarrow> env \<Rightarrow> application option \<Rightarrow> bool \<Rightarrow> effect list
     \<Rightarrow> effect list \<times> exit" where
  "gocloud_serving c e a cleanup t =
     (case a of
        None \<Rightarrow> run_deferred cleanup t (PanicExit NilDereference)
      | Some ap \<Rightarrow>
          (let t1 = t @ [RegisterService,
                         Go (MetricsEndpoint (c ''bind-prometheus-http'')),
                         Log (StdPrintln [GoString (''Starting Grpc service... '' @ grpcAddr c)]),
                         NetListen (grpcAddr c)]
           in case net_Listen e of
                Some err \<Rightarrow>
                  run_deferred cleanup
                    (t1 @ [Log (StdPrintf ''Failed to listen: %v'' [GoString (grpcAddr c)])])
                    (PanicExit (GoError err))
              | None \<Rightarrow>
                  gocloud_gateway c e cleanup
                    (t1 @ [Acquire (Listener (grpcAddr c)), Go (GrpcServe (grpcAddr c))])))"

definition gocloud_setup ::
  "cli_context \<Rightarrow> env \<Rightarrow> (application option \<times> bool \<times> string option) \<Rightarrow> effect list
     \<Rightarrow> effect list \<times> exit" where
  "gocloud_setup c e r t =
     (case r of
        (a, cleanup, Some err) \<Rightarrow> (t @ [Log (StdFatal [GoError err])], OsExit 1)
      | (a, cleanup, None) \<Rightarrow> gocloud_serving c e a cleanup t)"

definition start_gocloud :: "cli_context \<Rightarrow> env \<Rightarrow> effect list \<times> exit" where
  "start_gocloud c e =
     (if c ''env'' = ''gcp'' \<or> c ''env'' = ''aws'' then gocloud_setup c e (None, False, None) []
      else if c ''env'' = ''local'' then gocloud_setup c e (setupLocal e) [SetupLocal]
      else ([Log (StdFatalf ''unknown -env=%s'' [GoString (c ''env'')])], OsExit 1))"

section \<open>Properties of the watcher\<close>

lemma watch_iteration_error:
  "watch_iteration (WatchError e) s
     = (Again, emit (StdPrintf ''watch MOTD variable: %v'' [GoError e]) s)"
  by (simp add: watch_iteration_def)

lemma watch_iteration_string:
  "watch_iteration (Snapshot (GoString v)) s
     = (Again, (emit (StdPrintln [GoString ''updated MOTD to'', GoString v]) s)
                 \<lparr>app := (app s)\<lparr>motd := v\<rparr>\<rparr>)"
  by (simp add: watch_iteration_def emit_def)

lemma watch_iteration_assertion_fails:
  "assert_string v = None \<Longrightarrow>
   watch_iteration (Snapshot v) s
     = (Panicked TypeAssertionError, emit (StdPrintln [GoString ''updated MOTD to'', v]) s)"
  by (simp add: watch_iteration_def)

lemma motd_emit: "motd (app (emit l s)) = motd (app s)"
  by (simp add: emit_def)

lemma harmless_Again: "harmless r \<Longrightarrow> fst (watch_iteration r s) = Again"
  by (cases r) (auto simp: watch_iteration_def Let_def split: option.splits)


text \<open>
  Partial correctness of the loop by the induction rule of its least fixed point: when it
  ends at all, it ends crashed, and some watch result made the body panic.
\<close>

lemma watchMOTDVar_ends_crashed:
  assumes "watchMOTDVar ws s = Some y"
  shows "(\<exists>p. fst y = Crashed p) \<and> (\<exists>r \<in> sset ws. \<not> harmless r)"
proof (rule watchMOTDVar.raw_induct
    [where P = "\<lambda>ws s y. (\<exists>p. fst y = Crashed p) \<and> (\<exists>r \<in> sset ws. \<not> harmless r)",
      OF _ assms])
  fix f :: "watch_result stream \<Rightarrow> proc \<Rightarrow> (goroutine_end \<times> proc) option"
  fix ws s y
  assume IH: "\<And>ws s y. f ws s = Some y \<Longrightarrow>
    (\<exists>p. fst y = Crashed p) \<and> (\<exists>r \<in> sset ws. \<not> harmless r)"
  assume eq: "(case watch_iteration (shd ws) s of
      (Again, s') \<Rightarrow> f (stl ws) s'
      | (Panicked p, s') \<Rightarrow> Some (Crashed p, s')) = Some y"
  show "(\<exists>p. fst y = Crashed p) \<and> (\<exists>r \<in> sset ws. \<not> harmless r)"
  proof (cases "watch_iteration (shd ws) s")
    case (Pair it s')
    show ?thesis
    proof (cases it)
      case Again
      with eq Pair have "f (stl ws) s' = Some y" by simp
      from IH[OF this] show ?thesis using stl_sset by fastforce
    next
      case (Panicked p)
      with eq Pair have y: "y = (Crashed p, s')" by simp
      have "\<not> harmless (shd ws)"
        using harmless_Again[of "shd ws" s] Pair Panicked by auto
      then show ?thesis using y shd_sset by auto
    qed
  qed
qed

lemma watchMOTDVar_runs_forever:
  assumes "\<forall>r \<in> sset ws. harmless r"
  shows "watchMOTDVar ws s = None"
proof (cases "watchMOTDVar ws s")
  case None
  then show ?thesis .
next
  case (Some y)
  from watchMOTDVar_ends_crashed[OF this] assms show ?thesis by blast
qed

lemma watchMOTDVar_crash_now:
  assumes "assert_string v = None"
  shows "watchMOTDVar (Snapshot v ## ws) s
    = Some (Crashed TypeAssertionError,
            emit (StdPrintln [GoString ''updated MOTD to'', v]) s)"
  by (subst watchMOTDVar.simps) (simp add: watch_iteration_assertion_fails[OF assms])

lemma watch_iteration_writes_only_strings:
  assumes "motd (app (snd (watch_iteration r s))) \<noteq> motd (app s)"
  shows "\<exists>str. r = Snapshot (GoString str) \<and> motd (app (snd (watch_iteration r s))) = str"
proof (cases r)
  case (WatchError e)
  with assms show ?thesis by (simp add: watch_iteration_error motd_emit)
next
  case (Snapshot v)
  show ?thesis
  proof (cases v)
    case (GoString str)
    with Snapshot show ?thesis by (simp add: watch_iteration_string)
  next
    case (GoError e)
    with Snapshot assms show ?thesis
      by (simp add: watch_iteration_assertion_fails motd_emit)
  next
    case (GoOther ty)
    with Snapshot assms show ?thesis
      by (simp add: watch_iteration_assertion_fails motd_emit)
  next
    case TypeAssertionError
    with Snapshot assms show ?thesis
      by (simp add: watch_iteration_assertion_fails motd_emit)
  next
    case NilDereference
    with Snapshot assms show ?thesis
      by (simp add: watch_iteration_assertion_fails motd_emit)
  qed
qed

text \<open>
  C5, as stated, fails: a successful watch whose value is not a string does not set the
  cell. The body logs the transition, panics at the type assertion and leaves the message
  of the day as it was.
\<close>

theorem watch_iteration_non_string_counterexample:
  "fst (watch_iteration (Snapshot (GoOther ''int''))
          \<lparr>app = (newApplication 1 2 3)\<lparr>motd := ''old''\<rparr>, logged = []\<rparr>)
     = Panicked TypeAssertionError
   \<and> motd (app (snd (watch_iteration (Snapshot (GoOther ''int''))
          \<lparr>app = (newApplication 1 2 3)\<lparr>motd := ''old''\<rparr>, logged = []\<rparr>))) = ''old''
   \<and> logged (snd (watch_iteration (Snapshot (GoOther ''int''))
          \<lparr>app = (newApplication 1 2 3)\<lparr>motd := ''old''\<rparr>, logged = []\<rparr>))
     = [StdPrintln [GoString ''updated MOTD to'', GoOther ''int'']]"
  by (simp add: watch_iteration_def emit_def newApplication_def)

text \<open>
  C5, amended: in every iteration of the watcher loop, a failed watch logs the error,
  leaves the message of the day unchanged and goes back to watching at once; a successful
  watch whose value is a string logs the transition and sets the message of the day to
  that string, and goes back to watching. The loop never ends normally: when it ends, it
  is by a panic, and on watch results that are errors or strings it runs forever.
\<close>

theorem watcher_loop_iterations:
  "watch_iteration (WatchError e) s
     = (Again, emit (StdPrintf ''watch MOTD variable: %v'' [GoError e]) s)
   \<and> motd (app (snd (watch_iteration (WatchError e) s))) = motd (app s)
   \<and> watch_iteration (Snapshot (GoString v)) s
     = (Again, (emit (StdPrintln [GoString ''updated MOTD to'', GoString v]) s)
                 \<lparr>app := (app s)\<lparr>motd := v\<rparr>\<rparr>)
   \<and> motd (app (snd (watch_iteration (Snapshot (GoString v)) s))) = v
   \<and> (\<forall>y. watchMOTDVar ws s = Some y \<longrightarrow> fst y \<noteq> Returned)
   \<and> ((\<forall>r \<in> sset ws. harmless r) \<longrightarrow> watchMOTDVar ws s = None)"
proof -
  have ends: "\<forall>y. watchMOTDVar ws s = Some y \<longrightarrow> fst y \<noteq> Returned"
    using watchMOTDVar_ends_crashed by fastforce
  have forever: "(\<forall>r \<in> sset ws. harmless r) \<longrightarrow> watchMOTDVar ws s = None"
    using watchMOTDVar_runs_forever by blast
  show ?thesis
    using ends forever
    by (simp add: watch_iteration_error watch_iteration_string motd_emit)
qed

theorem watcher_loop_iterations_witness:
  "watch_iteration (WatchError ''timeout'') \<lparr>app = newApplication 1 2 3, logged = []\<rparr>
     = (Again, \<lparr>app = newApplication 1 2 3,
          logged = [StdPrintf ''watch MOTD variable: %v'' [GoError ''timeout'']]\<rparr>)
   \<and> motd (app (snd (watch_iteration (Snapshot (GoString ''hello''))
          \<lparr>app = newApplication 1 2 3, logged = []\<rparr>))) = ''hello''
   \<and> watchMOTDVar (sconst (WatchError ''timeout''))
          \<lparr>app = newApplication 1 2 3, logged = []\<rparr> = None"
  using watcher_loop_iterations
    [where e = "''timeout''" and v = "''hello''"
       and ws = "sconst (WatchError ''timeout'')"
       and s = "\<lparr>app = newApplication 1 2 3, logged = []\<rparr>"]
  by (simp add: emit_def)



text \<open>
  C10: the update step asserts that the snapshot value is a string without a guard. On a
  successful watch whose value is not a string, the body logs, then panics; the watcher
  goroutine runs outside the interceptor chain, so the panic is not recovered and ends
  the process with status 2. The message of the day is written only when the assertion
  succeeds: an iteration that changes it received a string and wrote that string.
\<close>

theorem watcher_unguarded_assertion:
  "(assert_string v = None \<longrightarrow>
      watch_iteration (Snapshot v) s
        = (Panicked TypeAssertionError,
           emit (StdPrintln [GoString ''updated MOTD to'', v]) s)
      \<and> motd (app (snd (watch_iteration (Snapshot v) s))) = motd (app s)
      \<and> watchMOTDVar (Snapshot v ## ws) s
        = Some (Crashed TypeAssertionError,
                emit (StdPrintln [GoString ''updated MOTD to'', v]) s)
      \<and> exit_status_of_goroutine (Crashed TypeAssertionError) = Some 2)
   \<and> (motd (app (snd (watch_iteration r s))) \<noteq> motd (app s) \<longrightarrow>
        (\<exists>str. r = Snapshot (GoString str)
           \<and> motd (app (snd (watch_iteration r s))) = str))
   \<and> (\<exists>u. assert_string u = None)"
proof -
  have ex: "\<exists>u. assert_string u = None"
    by (rule exI[of _ "GoOther ''int''"]) simp
  have only: "motd (app (snd (watch_iteration r s))) \<noteq> motd (app s) \<longrightarrow>
        (\<exists>str. r = Snapshot (GoString str)
           \<and> motd (app (snd (watch_iteration r s))) = str)"
    using watch_iteration_writes_only_strings by blast
  show ?thesis
    using ex only
    by (simp add: watch_iteration_assertion_fails watchMOTDVar_crash_now motd_emit
        exit_status_of_goroutine_def)
qed

theorem watcher_unguarded_assertion_witness:
  "assert_string (GoOther ''int'') = None
   \<and> watchMOTDVar (Snapshot (GoOther ''int'') ## sconst (WatchError ''timeout''))
         \<lparr>app = newApplication 1 2 3, logged = []\<rparr>
        = Some (Crashed TypeAssertionError,
                \<lparr>app = newApplication 1 2 3,
                 logged = [StdPrintln [GoString ''updated MOTD to'', GoOther ''int'']]\<rparr>)
   \<and> exit_status_of_goroutine (Crashed TypeAssertionError) = Some 2"
  using watcher_unguarded_assertion
    [where v = "GoOther ''int''" and ws = "sconst (WatchError ''timeout'')"
       and s = "\<lparr>app = newApplication 1 2 3, logged = []\<rparr>"]
  by (simp add: emit_def)





section \<open>Properties of the interceptor chain\<close>

lemma mark_simps:
  "events (mark e w) = events w @ [e]" "logs (mark e w) = logs w" "stacks (mark e w) = stacks w"
  by (simp_all add: mark_def)

lemma unary_call_returns:
  assumes "f q = Done r"
  shows "UnaryInterceptor (invoke f) q w
    = (Done r, w\<lparr>events := events w @
          [Enter Tags, Enter Tracing, Enter Metrics, Enter Logging, Enter Recovery, Handler,
           Leave Logging (code_of r), Leave Metrics (code_of r), Leave Tracing (code_of r),
           Leave Tags (code_of r)]\<rparr>)"
  using assms
  by (simp add: UnaryInterceptor_def observing_def recovering_def invoke_def mark_def)

lemma unary_call_panics:
  assumes "f q = Panic p"
  shows "UnaryInterceptor (invoke f) q w
    = (Done (Failure (status_Errorf Internal ''%s'' [p])),
       w\<lparr>events := events w @
          [Enter Tags, Enter Tracing, Enter Metrics, Enter Logging, Enter Recovery, Handler,
           Recovered p, Leave Logging Internal, Leave Metrics Internal,
           Leave Tracing Internal, Leave Tags Internal],
         logs := snd (panicHandler p (stacks w) (logs w))\<rparr>)"
  using assms
  by (simp add: UnaryInterceptor_def observing_def recovering_def invoke_def mark_def
      panicHandler_def status_Errorf_def Let_def)

lemma stream_call_returns:
  assumes "f q = Done r"
  shows "StreamInterceptor (invoke f) q w
    = (Done r, w\<lparr>events := events w @
          [Enter Tags, Enter Tracing, Enter Metrics, Enter Logging, Enter Recovery, Handler,
           Leave Logging (code_of r), Leave Metrics (code_of r), Leave Tracing (code_of r),
           Leave Tags (code_of r)]\<rparr>)"
  using assms
  by (simp add: StreamInterceptor_def observing_def recovering_def invoke_def mark_def)

lemma stream_call_panics:
  assumes "f q = Panic p"
  shows "StreamInterceptor (invoke f) q w
    = (Done (Failure (status_Errorf Internal ''%s'' [p])),
       w\<lparr>events := events w @
          [Enter Tags, Enter Tracing, Enter Metrics, Enter Logging, Enter Recovery, Handler,
           Recovered p, Leave Logging Internal, Leave Metrics Internal,
           Leave Tracing Internal, Leave Tags Internal],
         logs := snd (panicHandler p (stacks w) (logs w))\<rparr>)"
  using assms
  by (simp add: StreamInterceptor_def observing_def recovering_def invoke_def mark_def
      panicHandler_def status_Errorf_def Let_def)

lemma unary_call_client: "fst (UnaryInterceptor (invoke f) q w) = Done (client_sees (f q))"
proof (cases "f q")
  case (Done r)
  then show ?thesis by (simp add: unary_call_returns)
next
  case (Panic p)
  then show ?thesis by (simp add: unary_call_panics)
qed

lemma stream_call_client: "fst (StreamInterceptor (invoke f) q w) = Done (client_sees (f q))"
proof (cases "f q")
  case (Done r)
  then show ?thesis by (simp add: stream_call_returns)
next
  case (Panic p)
  then show ?thesis by (simp add: stream_call_panics)
qed

text \<open>A handler that never lets a panic out keeps the server alive, call after call.\<close>

lemma serve_alive:
  assumes "\<And>q w. fst (h q w) = Done (g q)"
  shows "fst (serve h qs w) = Alive (map g qs)"
proof (induction qs arbitrary: w)
  case Nil
  show ?case by simp
next
  case (Cons q qs)
  obtain o1 w1 where step: "h q w = (o1, w1)" by (cases "h q w")
  with assms[of q w] have o1: "o1 = Done (g q)" by simp
  obtain sv w2 where rest: "serve h qs w1 = (sv, w2)" by (cases "serve h qs w1")
  with Cons.IH[of w1] have "sv = Alive (map g qs)" by simp
  with step o1 rest show ?case by simp
qed

lemma serve_dead:
  assumes "fst (h q w) = Panic p"
  shows "fst (serve h (q # qs) w) = Dead [] p"
proof -
  obtain o1 w1 where step: "h q w = (o1, w1)" by (cases "h q w")
  with assms have "o1 = Panic p" by simp
  with step show ?thesis by simp
qed

lemma runtime_Stack_fits:
  assumes "length (calling_goroutine rt @ other_goroutines rt) \<le> 2 ^ 16"
  shows "runtime_Stack (replicate (2 ^ 16) (CHR 0x00)) True rt
    = calling_goroutine rt @ other_goroutines rt
      @ replicate (2 ^ 16 - length (calling_goroutine rt @ other_goroutines rt)) (CHR 0x00)"
  using assms by (auto simp add: runtime_Stack_def Let_def min_def)

lemma runtime_Stack_length:
  "length (runtime_Stack (replicate (2 ^ 16) (CHR 0x00)) True rt) = 2 ^ 16"
  by (auto simp add: runtime_Stack_def Let_def min_def)

lemma panicHandler_logs:
  "snd (panicHandler p rt lg)
     = lg @ [LrErrorf ''panic recovered: %+v''
               [GoString (runtime_Stack (replicate (2 ^ 16) (CHR 0x00)) True rt)]]"
  by (simp add: panicHandler_def Let_def)

text \<open>
  C3: both chains are the five stages in the order tagging, tracing, metrics, logging,
  recovery, each wrapping the next, with recovery wrapping the handler itself. A call
  enters the stages in that order and the handler right after recovery; when the handler
  panics, recovery turns the panic into the \<open>Internal\<close> error, and logging, metrics,
  tracing and tagging each get that failed call back from their next handler, in this
  order, instead of a panic.
\<close>

theorem interceptor_chain_order:
  "UnaryInterceptor h
     = observing Tags (observing Tracing (observing Metrics (observing Logging
         (recovering panicHandler h))))
   \<and> StreamInterceptor h
     = observing Tags (observing Tracing (observing Metrics (observing Logging
         (recovering panicHandler h))))
   \<and> (f q = Panic p \<longrightarrow>
        UnaryInterceptor (invoke f) q w
          = (Done (Failure (status_Errorf Internal ''%s'' [p])),
             w\<lparr>events := events w @
                [Enter Tags, Enter Tracing, Enter Metrics, Enter Logging, Enter Recovery,
                 Handler, Recovered p, Leave Logging Internal, Leave Metrics Internal,
                 Leave Tracing Internal, Leave Tags Internal],
               logs := snd (panicHandler p (stacks w) (logs w))\<rparr>)
        \<and> StreamInterceptor (invoke f) q w = UnaryInterceptor (invoke f) q w)
   \<and> (f q = Done r \<longrightarrow>
        UnaryInterceptor (invoke f) q w
          = (Done r, w\<lparr>events := events w @
                [Enter Tags, Enter Tracing, Enter Metrics, Enter Logging, Enter Recovery,
                 Handler, Leave Logging (code_of r), Leave Metrics (code_of r),
                 Leave Tracing (code_of r), Leave Tags (code_of r)]\<rparr>)
        \<and> StreamInterceptor (invoke f) q w = UnaryInterceptor (invoke f) q w)"
proof -
  have u: "UnaryInterceptor h
     = observing Tags (observing Tracing (observing Metrics (observing Logging
         (recovering panicHandler h))))"
    by (simp add: UnaryInterceptor_def)
  have s: "StreamInterceptor h
     = observing Tags (observing Tracing (observing Metrics (observing Logging
         (recovering panicHandler h))))"
    by (simp add: StreamInterceptor_def)
  show ?thesis
    using u s
    by (simp add: unary_call_panics unary_call_returns stream_call_panics
        stream_call_returns)
qed

theorem interceptor_chain_order_witness:
  "UnaryInterceptor
       (invoke (\<lambda>q::nat. if q = 0 then Panic (GoString ''boom'') else Done (Reply q))) 0
       \<lparr>stacks = \<lparr>calling_goroutine = ''goroutine 7 [running]'',
                  other_goroutines = ''goroutine 1 [IO wait]''\<rparr>,
        events = [], logs = []\<rparr>
     = (Done (Failure \<lparr>st_code = Internal, st_format = ''%s'',
                       st_args = [GoString ''boom'']\<rparr>),
        \<lparr>stacks = \<lparr>calling_goroutine = ''goroutine 7 [running]'',
                   other_goroutines = ''goroutine 1 [IO wait]''\<rparr>,
         events = [Enter Tags, Enter Tracing, Enter Metrics, Enter Logging, Enter Recovery,
                   Handler, Recovered (GoString ''boom''), Leave Logging Internal,
                   Leave Metrics Internal, Leave Tracing Internal, Leave Tags Internal],
         logs = snd (panicHandler (GoString ''boom'')
                  \<lparr>calling_goroutine = ''goroutine 7 [running]'',
                   other_goroutines = ''goroutine 1 [IO wait]''\<rparr> [])\<rparr>)
   \<and> UnaryInterceptor
       (invoke (\<lambda>q::nat. if q = 0 then Panic (GoString ''boom'') else Done (Reply q))) 5
       \<lparr>stacks = \<lparr>calling_goroutine = ''goroutine 7 [running]'',
                  other_goroutines = ''goroutine 1 [IO wait]''\<rparr>,
        events = [], logs = []\<rparr>
     = (Done (Reply 5),
        \<lparr>stacks = \<lparr>calling_goroutine = ''goroutine 7 [running]'',
                   other_goroutines = ''goroutine 1 [IO wait]''\<rparr>,
         events = [Enter Tags, Enter Tracing, Enter Metrics, Enter Logging, Enter Recovery,
                   Handler, Leave Logging OK, Leave Metrics OK, Leave Tracing OK,
                   Leave Tags OK],
         logs = []\<rparr>)"
proof -
  let ?f = "\<lambda>q::nat. if q = 0 then Panic (GoString ''boom'') else Done (Reply q)"
  let ?w = "\<lparr>stacks = \<lparr>calling_goroutine = ''goroutine 7 [running]'',
                  other_goroutines = ''goroutine 1 [IO wait]''\<rparr>,
        events = [], logs = []\<rparr>"
  have a: "?f 0 = Panic (GoString ''boom'')" by simp
  have b: "?f 5 = Done (Reply 5)" by simp
  note panics = interceptor_chain_order
    [where f = ?f and q = 0 and p = "GoString ''boom''" and w = ?w and h = "invoke ?f"
       and r = "Reply 0", THEN conjunct2, THEN conjunct2, THEN conjunct1, rule_format, OF a]
  note returns = interceptor_chain_order
    [where f = ?f and q = 5 and p = "GoString ''boom''" and w = ?w and h = "invoke ?f"
       and r = "Reply 5", THEN conjunct2, THEN conjunct2, THEN conjunct2, rule_format, OF b]
  show ?thesis
    using panics returns by (simp add: status_Errorf_def)
qed

lemma serve_without_recovery_dies:
  assumes "f q = Panic p"
  shows "fst (serve (invoke f) (q # qs) w) = Dead [] p"
  by (rule serve_dead) (simp add: invoke_def assms)

text \<open>
  C1, as stated, fails in the go-cloud bootstrap: its \<^verbatim>\<open>panicHandler\<close> logs with the
  standard library's \<^verbatim>\<open>log.Printf\<close>, whose entries carry no severity.
\<close>

theorem panicHandler_gocloud_severity_counterexample:
  "map severity (snd (panicHandler_gocloud (GoString ''boom'')
       \<lparr>calling_goroutine = ''goroutine 7 [running]'',
        other_goroutines = ''goroutine 1 [IO wait]''\<rparr> [])) = [None]
   \<and> map severity (snd (panicHandler (GoString ''boom'')
       \<lparr>calling_goroutine = ''goroutine 7 [running]'',
        other_goroutines = ''goroutine 1 [IO wait]''\<rparr> [])) = [Some ErrorLevel]"
  by (simp add: panicHandler_gocloud_def panicHandler_def Let_def)

text \<open>
  C1, amended: in the todo bootstrap, for every unary or streaming call whose handler
  panics, the recovery stage writes the stack trace of all goroutines into a buffer of
  65536 bytes (the whole trace when it fits), logs the buffer at error severity, and
  returns to the client an error of code \<open>Internal\<close> made from the panic value; no panic
  leaves the chain, so the server stays alive and every call of a sequence gets its
  reply, those after a panicking call too. The recovery handler of the go-cloud
  bootstrap does the same but logs through the standard logger, with no severity.
\<close>

theorem panic_recovery:
  "(f q = Panic p \<longrightarrow>
      fst (UnaryInterceptor (invoke f) q w)
        = Done (Failure (status_Errorf Internal ''%s'' [p]))
      \<and> fst (StreamInterceptor (invoke f) q w)
        = Done (Failure (status_Errorf Internal ''%s'' [p]))
      \<and> logs (snd (UnaryInterceptor (invoke f) q w))
        = logs w @ [LrErrorf ''panic recovered: %+v''
            [GoString (runtime_Stack (replicate (2 ^ 16) (CHR 0x00)) True (stacks w))]]
      \<and> logs (snd (StreamInterceptor (invoke f) q w))
        = logs w @ [LrErrorf ''panic recovered: %+v''
            [GoString (runtime_Stack (replicate (2 ^ 16) (CHR 0x00)) True (stacks w))]])
   \<and> (length (calling_goroutine rt @ other_goroutines rt) \<le> 2 ^ 16 \<longrightarrow>
        runtime_Stack (replicate (2 ^ 16) (CHR 0x00)) True rt
          = calling_goroutine rt @ other_goroutines rt
            @ replicate (2 ^ 16 - length (calling_goroutine rt @ other_goroutines rt))
                (CHR 0x00))
   \<and> map severity (snd (panicHandler p rt [])) = [Some ErrorLevel]
   \<and> st_code (fst (panicHandler p rt lg)) = Internal
   \<and> fst (serve (UnaryInterceptor (invoke f)) qs w) = Alive (map (\<lambda>q. client_sees (f q)) qs)
   \<and> fst (serve (StreamInterceptor (invoke f)) qs w) = Alive (map (\<lambda>q. client_sees (f q)) qs)
   \<and> panicHandler_gocloud p rt lg
        = (status_Errorf Internal ''%s'' [p],
           lg @ [StdPrintf ''panic recovered: %+v''
             [GoString (runtime_Stack (replicate (2 ^ 16) (CHR 0x00)) True rt)]])"
proof -
  have call: "f q = Panic p \<longrightarrow>
      fst (UnaryInterceptor (invoke f) q w)
        = Done (Failure (status_Errorf Internal ''%s'' [p]))
      \<and> fst (StreamInterceptor (invoke f) q w)
        = Done (Failure (status_Errorf Internal ''%s'' [p]))
      \<and> logs (snd (UnaryInterceptor (invoke f) q w))
        = logs w @ [LrErrorf ''panic recovered: %+v''
            [GoString (runtime_Stack (replicate (2 ^ 16) (CHR 0x00)) True (stacks w))]]
      \<and> logs (snd (StreamInterceptor (invoke f) q w))
        = logs w @ [LrErrorf ''panic recovered: %+v''
            [GoString (runtime_Stack (replicate (2 ^ 16) (CHR 0x00)) True (stacks w))]]"
    by (simp add: unary_call_panics stream_call_panics panicHandler_logs)
  have fits: "length (calling_goroutine rt @ other_goroutines rt) \<le> 2 ^ 16 \<longrightarrow>
        runtime_Stack (replicate (2 ^ 16) (CHR 0x00)) True rt
          = calling_goroutine rt @ other_goroutines rt
            @ replicate (2 ^ 16 - length (calling_goroutine rt @ other_goroutines rt))
                (CHR 0x00)"
    using runtime_Stack_fits by blast
  have sev: "map severity (snd (panicHandler p rt [])) = [Some ErrorLevel]"
    by (simp add: panicHandler_logs)
  have code: "st_code (fst (panicHandler p rt lg)) = Internal"
    by (simp add: panicHandler_def status_Errorf_def Let_def)
  have su: "fst (serve (UnaryInterceptor (invoke f)) qs w)
      = Alive (map (\<lambda>q. client_sees (f q)) qs)"
    by (rule serve_alive) (rule unary_call_client)
  have ss: "fst (serve (StreamInterceptor (invoke f)) qs w)
      = Alive (map (\<lambda>q. client_sees (f q)) qs)"
    by (rule serve_alive) (rule stream_call_client)
  have gc: "panicHandler_gocloud p rt lg
        = (status_Errorf Internal ''%s'' [p],
           lg @ [StdPrintf ''panic recovered: %+v''
             [GoString (runtime_Stack (replicate (2 ^ 16) (CHR 0x00)) True rt)]])"
    by (simp add: panicHandler_gocloud_def Let_def)
  from call fits sev code su ss gc show ?thesis by blast
qed

theorem panic_recovery_witness:
  "fst (UnaryInterceptor
       (invoke (\<lambda>q::nat. if q = 0 then Panic (GoString ''boom'') else Done (Reply q))) 0
       \<lparr>stacks = \<lparr>calling_goroutine = ''goroutine 7 [running]'',
                  other_goroutines = ''goroutine 1 [IO wait]''\<rparr>,
        events = [], logs = []\<rparr>)
     = Done (Failure \<lparr>st_code = Internal, st_format = ''%s'',
                      st_args = [GoString ''boom'']\<rparr>)
   \<and> logs (snd (UnaryInterceptor
       (invoke (\<lambda>q::nat. if q = 0 then Panic (GoString ''boom'') else Done (Reply q))) 0
       \<lparr>stacks = \<lparr>calling_goroutine = ''goroutine 7 [running]'',
                  other_goroutines = ''goroutine 1 [IO wait]''\<rparr>,
        events = [], logs = []\<rparr>))
     = [LrErrorf ''panic recovered: %+v''
          [GoString (''goroutine 7 [running]goroutine 1 [IO wait]''
                     @ replicate 65494 (CHR 0x00))]]
   \<and> fst (serve (UnaryInterceptor
       (invoke (\<lambda>q::nat. if q = 0 then Panic (GoString ''boom'') else Done (Reply q))))
       [3, 0, 4]
       \<lparr>stacks = \<lparr>calling_goroutine = ''goroutine 7 [running]'',
                  other_goroutines = ''goroutine 1 [IO wait]''\<rparr>,
        events = [], logs = []\<rparr>)
     = Alive [Reply 3,
              Failure \<lparr>st_code = Internal, st_format = ''%s'',
                       st_args = [GoString ''boom'']\<rparr>,
              Reply 4]"
proof -
  let ?f = "\<lambda>q::nat. if q = 0 then Panic (GoString ''boom'') else Done (Reply q)"
  let ?rt = "\<lparr>calling_goroutine = ''goroutine 7 [running]'',
              other_goroutines = ''goroutine 1 [IO wait]''\<rparr>"
  let ?w = "\<lparr>stacks = ?rt, events = [], logs = []\<rparr>"
  have a: "?f 0 = Panic (GoString ''boom'')" by simp
  have l: "length (calling_goroutine ?rt @ other_goroutines ?rt) \<le> 2 ^ 16" by simp
  note t = panic_recovery
    [where f = ?f and q = 0 and p = "GoString ''boom''" and w = ?w and rt = ?rt
       and qs = "[3, 0, 4]" and lg = "[]"]
  note call = t[THEN conjunct1, rule_format, OF a]
  note fits = t[THEN conjunct2, THEN conjunct1, rule_format, OF l]
  note alive = t[THEN conjunct2, THEN conjunct2, THEN conjunct2, THEN conjunct2,
      THEN conjunct1]
  have buf: "runtime_Stack (replicate (2 ^ 16) (CHR 0x00)) True ?rt
      = ''goroutine 7 [running]goroutine 1 [IO wait]'' @ replicate 65494 (CHR 0x00)"
    using fits by simp
  show ?thesis
    using call alive buf by (simp add: status_Errorf_def)
qed

section \<open>Properties of the startup sequences\<close>

lemmas todo_start_defs = start_def start_serving_def start_gateway_def

lemmas gocloud_start_defs =
  start_gocloud_def gocloud_setup_def gocloud_serving_def gocloud_gateway_def run_deferred_def

lemma start_listen_fails:
  assumes "net_Listen e = Some err"
  shows "start c e
    = ([NetListen (c ''bind-grpc''),
        Log (LrFatalf ''Failed to listen: %v'' [GoString (c ''bind-grpc'')])], OsExit 1)"
  using assms by (simp add: start_def)

lemma start_dial_fails:
  assumes "net_Listen e = None" "cfg_New e = None" "grpc_Dial e = Some err"
  shows "start c e
    = ([NetListen (c ''bind-grpc''), Acquire (Listener (c ''bind-grpc'')), Acquire Tracer,
        NewServer, Acquire Store, CreateTable, PrometheusRegister,
        Go (MetricsEndpoint (c ''bind-prometheus-http'')),
        Log (LrPrintln [GoString ''Starting Todo service..'']),
        Go (GrpcServe (c ''bind-grpc'')), GrpcDial (c ''bind-grpc''), Release Tracer],
       PanicExit (GoString ''Couldn't contact grpc server''))"
  using assms by (simp add: start_def start_serving_def)

lemma start_gocloud_listen_reached:
  assumes "NetListen a \<in> set (fst (start_gocloud c e))"
  shows "a = grpcAddr c \<and> c ''env'' = ''local'' \<and> (\<exists>ap cl. setupLocal e = (Some ap, cl, None))"
  using assms
  by (auto simp: gocloud_start_defs Let_def split: if_splits option.splits prod.splits)

lemma start_gocloud_listen_fails:
  assumes "c ''env'' = ''local''" "setupLocal e = (Some ap, cl, None)"
    "net_Listen e = Some err"
  shows "start_gocloud c e
    = run_deferred cl
        [SetupLocal, RegisterService, Go (MetricsEndpoint (c ''bind-prometheus-http'')),
         Log (StdPrintln [GoString (''Starting Grpc service... '' @ grpcAddr c)]),
         NetListen (grpcAddr c),
         Log (StdPrintf ''Failed to listen: %v'' [GoString (grpcAddr c)])]
        (PanicExit (GoError err))"
  using assms by (simp add: start_gocloud_def gocloud_setup_def gocloud_serving_def)

lemma start_gocloud_dial_fails:
  assumes "c ''env'' = ''local''" "setupLocal e = (Some ap, cl, None)"
    "net_Listen e = None" "grpc_Dial e = Some err"
  shows "start_gocloud c e
    = gocloud_gateway c e cl
        [SetupLocal, RegisterService, Go (MetricsEndpoint (c ''bind-prometheus-http'')),
         Log (StdPrintln [GoString (''Starting Grpc service... '' @ grpcAddr c)]),
         NetListen (grpcAddr c), Acquire (Listener (grpcAddr c)),
         Go (GrpcServe (grpcAddr c))]"
  using assms by (simp add: start_gocloud_def gocloud_setup_def gocloud_serving_def)

lemma gocloud_gateway_dial_fails:
  assumes "grpc_Dial e = Some err"
  shows "Log (StdPrintf (''Couldn't contact grpc server: '' @ err) [])
           \<in> set (fst (gocloud_gateway c e cl t))
       \<and> RegisterGateway \<in> set (fst (gocloud_gateway c e cl t))
       \<and> HttpListenAndServe (httpAddr c) \<in> set (fst (gocloud_gateway c e cl t))
       \<and> (\<forall>p. snd (gocloud_gateway c e cl t) = PanicExit p \<longrightarrow> \<not> cl \<and> p = NilDereference)
       \<and> (\<forall>n. snd (gocloud_gateway c e cl t) \<noteq> OsExit n)
       \<and> (http_ListenAndServe e = None \<longrightarrow> snd (gocloud_gateway c e cl t) = ServesForever)"
  using assms
  by (auto simp: gocloud_gateway_def run_deferred_def Let_def split: option.splits if_splits)

lemma run_deferred_panic_status: "exit_status (snd (run_deferred cl t (PanicExit p))) = Some 2"
  by (simp add: run_deferred_def)

lemma run_deferred_panic_exit: "\<exists>p'. snd (run_deferred cl t (PanicExit p)) = PanicExit p'"
  by (simp add: run_deferred_def)

lemma run_deferred_effects: "set (fst (run_deferred cl t ex)) \<subseteq> insert Cleanup (set t)"
  by (auto simp: run_deferred_def)

lemma run_deferred_count:
  "x \<noteq> Cleanup \<Longrightarrow> count_list (fst (run_deferred cl t ex)) x = count_list t x"
  by (simp add: run_deferred_def)

lemma run_deferred_keeps: "x \<in> set t \<Longrightarrow> x \<in> set (fst (run_deferred cl t ex))"
  by (simp add: run_deferred_def)

text \<open>
  C4: when binding the listener of the RPC server fails, the startup is fatal. The todo
  bootstrap, which binds first, logs the failure with \<^verbatim>\<open>Fatalf\<close> and exits with status
  1. The go-cloud bootstrap, whenever it gets as far as binding, logs the failure and
  panics with the error, which ends the process with status 2. Either makes exactly one
  attempt to bind, and neither goes on to serve.
\<close>

theorem bind_failure_is_fatal:
  "(net_Listen e = Some err \<longrightarrow>
      start c e
        = ([NetListen (c ''bind-grpc''),
            Log (LrFatalf ''Failed to listen: %v'' [GoString (c ''bind-grpc'')])], OsExit 1)
      \<and> exit_status (snd (start c e)) = Some 1)
   \<and> (net_Listen e = Some err \<and> NetListen a \<in> set (fst (start_gocloud c e)) \<longrightarrow>
        a = grpcAddr c
        \<and> (\<exists>p. snd (start_gocloud c e) = PanicExit p)
        \<and> exit_status (snd (start_gocloud c e)) = Some 2
        \<and> Log (StdPrintf ''Failed to listen: %v'' [GoString (grpcAddr c)])
            \<in> set (fst (start_gocloud c e))
        \<and> count_list (fst (start_gocloud c e)) (NetListen (grpcAddr c)) = 1
        \<and> (\<forall>g. Go (GrpcServe g) \<notin> set (fst (start_gocloud c e)))
        \<and> (\<forall>h. HttpListenAndServe h \<notin> set (fst (start_gocloud c e))))"
proof -
  have todo: "net_Listen e = Some err \<longrightarrow>
      start c e
        = ([NetListen (c ''bind-grpc''),
            Log (LrFatalf ''Failed to listen: %v'' [GoString (c ''bind-grpc'')])], OsExit 1)
      \<and> exit_status (snd (start c e)) = Some 1"
    by (simp add: start_listen_fails)
  have gocloud: "a = grpcAddr c
        \<and> (\<exists>p. snd (start_gocloud c e) = PanicExit p)
        \<and> exit_status (snd (start_gocloud c e)) = Some 2
        \<and> Log (StdPrintf ''Failed to listen: %v'' [GoString (grpcAddr c)])
            \<in> set (fst (start_gocloud c e))
        \<and> count_list (fst (start_gocloud c e)) (NetListen (grpcAddr c)) = 1
        \<and> (\<forall>g. Go (GrpcServe g) \<notin> set (fst (start_gocloud c e)))
        \<and> (\<forall>h. HttpListenAndServe h \<notin> set (fst (start_gocloud c e)))"
    if fails: "net_Listen e = Some err"
      and reached: "NetListen a \<in> set (fst (start_gocloud c e))"
  proof -
    from start_gocloud_listen_reached[OF reached]
    obtain ap cl where a: "a = grpcAddr c" and env: "c ''env'' = ''local''"
      and stp: "setupLocal e = (Some ap, cl, None)" by blast
    note eq = start_gocloud_listen_fails[where c = c, OF env stp fails]
    have "\<forall>g. Go (GrpcServe g) \<notin> set (fst (start_gocloud c e))"
      using run_deferred_effects unfolding eq by fastforce
    moreover have "\<forall>h. HttpListenAndServe h \<notin> set (fst (start_gocloud c e))"
      using run_deferred_effects unfolding eq by fastforce
    moreover have "count_list (fst (start_gocloud c e)) (NetListen (grpcAddr c)) = 1"
      unfolding eq by (simp add: run_deferred_count)
    moreover have "Log (StdPrintf ''Failed to listen: %v'' [GoString (grpcAddr c)])
            \<in> set (fst (start_gocloud c e))"
      unfolding eq by (rule run_deferred_keeps) simp
    ultimately show ?thesis
      using a unfolding eq
      by (simp add: run_deferred_panic_status run_deferred_panic_exit)
  qed
  from todo gocloud show ?thesis by blast
qed

theorem bind_failure_is_fatal_witness:
  "start (\<lambda>k. if k = ''env'' then ''local'' else if k = ''bind-grpc'' then ''50051''
               else if k = ''bind-http'' then ''8080'' else [])
     \<lparr>setupLocal = (Some (newApplication 1 2 3), True, None),
      net_Listen = Some ''address already in use'', cfg_New = None, grpc_Dial = None,
      RegisterTodoServiceHandler = None, http_ListenAndServe = None\<rparr>
     = ([NetListen ''50051'',
         Log (LrFatalf ''Failed to listen: %v'' [GoString ''50051''])], OsExit 1)
   \<and> NetListen ''127.0.0.1:50051''
       \<in> set (fst (start_gocloud
           (\<lambda>k. if k = ''env'' then ''local'' else if k = ''bind-grpc'' then ''50051''
               else if k = ''bind-http'' then ''8080'' else [])
           \<lparr>setupLocal = (Some (newApplication 1 2 3), True, None),
            net_Listen = Some ''address already in use'', cfg_New = None, grpc_Dial = None,
            RegisterTodoServiceHandler = None, http_ListenAndServe = None\<rparr>))
   \<and> exit_status (snd (start_gocloud
           (\<lambda>k. if k = ''env'' then ''local'' else if k = ''bind-grpc'' then ''50051''
               else if k = ''bind-http'' then ''8080'' else [])
           \<lparr>setupLocal = (Some (newApplication 1 2 3), True, None),
            net_Listen = Some ''address already in use'', cfg_New = None, grpc_Dial = None,
            RegisterTodoServiceHandler = None, http_ListenAndServe = None\<rparr>)) = Some 2"
proof -
  let ?c = "\<lambda>k. if k = ''env'' then ''local'' else if k = ''bind-grpc'' then ''50051''
               else if k = ''bind-http'' then ''8080'' else []"
  let ?e = "\<lparr>setupLocal = (Some (newApplication 1 2 3), True, None),
      net_Listen = Some ''address already in use'', cfg_New = None, grpc_Dial = None,
      RegisterTodoServiceHandler = None, http_ListenAndServe = None\<rparr>"
  have fails: "net_Listen ?e = Some ''address already in use''" by simp
  have reached: "NetListen ''127.0.0.1:50051'' \<in> set (fst (start_gocloud ?c ?e))"
    by (simp add: gocloud_start_defs grpcAddr_def)
  note t = bind_failure_is_fatal
    [where e = ?e and c = ?c and err = "''address already in use''"
       and a = "''127.0.0.1:50051''"]
  from t fails have todo: "start ?c ?e
     = ([NetListen ''50051'',
         Log (LrFatalf ''Failed to listen: %v'' [GoString ''50051''])], OsExit 1)"
    by simp
  from t fails reached have "exit_status (snd (start_gocloud ?c ?e)) = Some 2"
    by blast
  with todo reached show ?thesis by blast
qed

text \<open>
  C2, as stated, fails in the todo bootstrap: there a failed dial is not logged and is
  fatal. \<^verbatim>\<open>start\<close> panics, the deferred close of the tracer runs, and the process ends
  with status 2 before the gateway is started.
\<close>

theorem start_dial_failure_counterexample:
  "start (\<lambda>k. if k = ''env'' then ''local'' else if k = ''bind-grpc'' then ''50051''
               else if k = ''bind-http'' then ''8080'' else [])
     \<lparr>setupLocal = (Some (newApplication 1 2 3), True, None),
      net_Listen = None, cfg_New = None, grpc_Dial = Some ''bad target'',
      RegisterTodoServiceHandler = None, http_ListenAndServe = None\<rparr>
     = ([NetListen ''50051'', Acquire (Listener ''50051''), Acquire Tracer,
         NewServer, Acquire Store, CreateTable, PrometheusRegister,
         Go (MetricsEndpoint []),
         Log (LrPrintln [GoString ''Starting Todo service..'']),
         Go (GrpcServe ''50051''), GrpcDial ''50051'', Release Tracer],
        PanicExit (GoString ''Couldn't contact grpc server''))
   \<and> exit_status (snd (start
       (\<lambda>k. if k = ''env'' then ''local'' else if k = ''bind-grpc'' then ''50051''
               else if k = ''bind-http'' then ''8080'' else [])
       \<lparr>setupLocal = (Some (newApplication 1 2 3), True, None),
        net_Listen = None, cfg_New = None, grpc_Dial = Some ''bad target'',
        RegisterTodoServiceHandler = None, http_ListenAndServe = None\<rparr>)) = Some 2"
  by (simp add: todo_start_defs)

text \<open>
  C2, amended: in the go-cloud bootstrap, a startup in which establishing the gateway's
  client connection fails logs the failure and is not fatal: \<^verbatim>\<open>start\<close> goes on to
  register the gateway and to serve HTTP, and it does not end by that failure. In the
  todo bootstrap the same failure is fatal and not logged: \<^verbatim>\<open>start\<close> panics and the
  process ends with status 2 without starting the gateway.
\<close>

theorem gateway_dial_failure:
  "(c ''env'' = ''local'' \<and> setupLocal e = (Some ap, cl, None) \<and> net_Listen e = None
      \<and> grpc_Dial e = Some err \<longrightarrow>
      Log (StdPrintf (''Couldn't contact grpc server: '' @ err) [])
        \<in> set (fst (start_gocloud c e))
      \<and> RegisterGateway \<in> set (fst (start_gocloud c e))
      \<and> HttpListenAndServe (httpAddr c) \<in> set (fst (start_gocloud c e))
      \<and> (\<forall>n. snd (start_gocloud c e) \<noteq> OsExit n)
      \<and> (\<forall>p. snd (start_gocloud c e) = PanicExit p \<longrightarrow> \<not> cl \<and> p = NilDereference)
      \<and> (http_ListenAndServe e = None \<longrightarrow> snd (start_gocloud c e) = ServesForever)
      \<and> (http_ListenAndServe e = None \<and> RegisterTodoServiceHandler e = None \<longrightarrow>
           fst (start_gocloud c e)
             = [SetupLocal, RegisterService, Go (MetricsEndpoint (c ''bind-prometheus-http'')),
                Log (StdPrintln [GoString (''Starting Grpc service... '' @ grpcAddr c)]),
                NetListen (grpcAddr c), Acquire (Listener (grpcAddr c)),
                Go (GrpcServe (grpcAddr c)), GrpcDial (grpcAddr c),
                Log (StdPrintf (''Couldn't contact grpc server: '' @ err) []),
                RegisterGateway, PrometheusRegister,
                Log (StdPrintln [GoString (''Starting HTTP service... '' @ httpAddr c)]),
                HttpListenAndServe (httpAddr c)]))
   \<and> (net_Listen e = None \<and> cfg_New e = None \<and> grpc_Dial e = Some err \<longrightarrow>
        start c e
          = ([NetListen (c ''bind-grpc''), Acquire (Listener (c ''bind-grpc'')),
              Acquire Tracer, NewServer, Acquire Store, CreateTable, PrometheusRegister,
              Go (MetricsEndpoint (c ''bind-prometheus-http'')),
              Log (LrPrintln [GoString ''Starting Todo service..'']),
              Go (GrpcServe (c ''bind-grpc'')), GrpcDial (c ''bind-grpc''), Release Tracer],
             PanicExit (GoString ''Couldn't contact grpc server''))
        \<and> exit_status (snd (start c e)) = Some 2)"
proof -
  have gocloud: "Log (StdPrintf (''Couldn't contact grpc server: '' @ err) [])
        \<in> set (fst (start_gocloud c e))
      \<and> RegisterGateway \<in> set (fst (start_gocloud c e))
      \<and> HttpListenAndServe (httpAddr c) \<in> set (fst (start_gocloud c e))
      \<and> (\<forall>n. snd (start_gocloud c e) \<noteq> OsExit n)
      \<and> (\<forall>p. snd (start_gocloud c e) = PanicExit p \<longrightarrow> \<not> cl \<and> p = NilDereference)
      \<and> (http_ListenAndServe e = None \<longrightarrow> snd (start_gocloud c e) = ServesForever)
      \<and> (http_ListenAndServe e = None \<and> RegisterTodoServiceHandler e = None \<longrightarrow>
           fst (start_gocloud c e)
             = [SetupLocal, RegisterService, Go (MetricsEndpoint (c ''bind-prometheus-http'')),
                Log (StdPrintln [GoString (''Starting Grpc service... '' @ grpcAddr c)]),
                NetListen (grpcAddr c), Acquire (Listener (grpcAddr c)),
                Go (GrpcServe (grpcAddr c)), GrpcDial (grpcAddr c),
                Log (StdPrintf (''Couldn't contact grpc server: '' @ err) []),
                RegisterGateway, PrometheusRegister,
                Log (StdPrintln [GoString (''Starting HTTP service... '' @ httpAddr c)]),
                HttpListenAndServe (httpAddr c)])"
    if local: "c ''env'' = ''local''" and stp: "setupLocal e = (Some ap, cl, None)"
      and bound: "net_Listen e = None" and dial: "grpc_Dial e = Some err"
  proof -
    note eq = start_gocloud_dial_fails[where c = c, OF local stp bound dial]
    have full: "http_ListenAndServe e = None \<and> RegisterTodoServiceHandler e = None \<longrightarrow>
           fst (start_gocloud c e)
             = [SetupLocal, RegisterService, Go (MetricsEndpoint (c ''bind-prometheus-http'')),
                Log (StdPrintln [GoString (''Starting Grpc service... '' @ grpcAddr c)]),
                NetListen (grpcAddr c), Acquire (Listener (grpcAddr c)),
                Go (GrpcServe (grpcAddr c)), GrpcDial (grpcAddr c),
                Log (StdPrintf (''Couldn't contact grpc server: '' @ err) []),
                RegisterGateway, PrometheusRegister,
                Log (StdPrintln [GoString (''Starting HTTP service... '' @ httpAddr c)]),
                HttpListenAndServe (httpAddr c)]"
      unfolding eq using dial by (simp add: gocloud_gateway_def)
    from gocloud_gateway_dial_fails[OF dial] full show ?thesis
      unfolding eq by blast
  qed
  have todo: "start c e
          = ([NetListen (c ''bind-grpc''), Acquire (Listener (c ''bind-grpc'')),
              Acquire Tracer, NewServer, Acquire Store, CreateTable, PrometheusRegister,
              Go (MetricsEndpoint (c ''bind-prometheus-http'')),
              Log (LrPrintln [GoString ''Starting Todo service..'']),
              Go (GrpcServe (c ''bind-grpc'')), GrpcDial (c ''bind-grpc''), Release Tracer],
             PanicExit (GoString ''Couldn't contact grpc server''))
        \<and> exit_status (snd (start c e)) = Some 2"
    if "net_Listen e = None" "cfg_New e = None" "grpc_Dial e = Some err"
    using that by (simp add: start_dial_fails)
  from gocloud todo show ?thesis by blast
qed

theorem gateway_dial_failure_witness:
  "start_gocloud
     (\<lambda>k. if k = ''env'' then ''local'' else if k = ''bind-grpc'' then ''50051''
               else if k = ''bind-http'' then ''8080'' else [])
     \<lparr>setupLocal = (Some (newApplication 1 2 3), True, None),
      net_Listen = None, cfg_New = None, grpc_Dial = Some ''bad target'',
      RegisterTodoServiceHandler = None, http_ListenAndServe = None\<rparr>
     = ([SetupLocal, RegisterService, Go (MetricsEndpoint []),
         Log (StdPrintln [GoString ''Starting Grpc service... 127.0.0.1:50051'']),
         NetListen ''127.0.0.1:50051'', Acquire (Listener ''127.0.0.1:50051''),
         Go (GrpcServe ''127.0.0.1:50051''), GrpcDial ''127.0.0.1:50051'',
         Log (StdPrintf ''Couldn't contact grpc server: bad target'' []),
         RegisterGateway, PrometheusRegister,
         Log (StdPrintln [GoString ''Starting HTTP service... 127.0.0.1:8080'']),
         HttpListenAndServe ''127.0.0.1:8080''],
        ServesForever)
   \<and> exit_status (snd (start
       (\<lambda>k. if k = ''env'' then ''local'' else if k = ''bind-grpc'' then ''50051''
               else if k = ''bind-http'' then ''8080'' else [])
       \<lparr>setupLocal = (Some (newApplication 1 2 3), True, None),
        net_Listen = None, cfg_New = None, grpc_Dial = Some ''bad target'',
        RegisterTodoServiceHandler = None, http_ListenAndServe = None\<rparr>)) = Some 2"
proof -
  let ?c = "\<lambda>k. if k = ''env'' then ''local'' else if k = ''bind-grpc'' then ''50051''
               else if k = ''bind-http'' then ''8080'' else []"
  let ?e = "\<lparr>setupLocal = (Some (newApplication 1 2 3), True, None),
      net_Listen = None, cfg_New = None, grpc_Dial = Some ''bad target'',
      RegisterTodoServiceHandler = None, http_ListenAndServe = None\<rparr>"
  have h1: "?c ''env'' = ''local'' \<and> setupLocal ?e = (Some (newApplication 1 2 3), True, None)
      \<and> net_Listen ?e = None \<and> grpc_Dial ?e = Some ''bad target''"
    by simp
  have h2: "net_Listen ?e = None \<and> cfg_New ?e = None \<and> grpc_Dial ?e = Some ''bad target''"
    by simp
  note t = gateway_dial_failure
    [where c = ?c and e = ?e and err = "''bad target''" and cl = True
       and ap = "newApplication 1 2 3"]
  note g = t[THEN conjunct1, rule_format, OF h1]
  note d = t[THEN conjunct2, rule_format, OF h2]
  note g6 = g[THEN conjunct2, THEN conjunct2, THEN conjunct2, THEN conjunct2,
      THEN conjunct2]
  have ex: "snd (start_gocloud ?c ?e) = ServesForever"
    using g6[THEN conjunct1] by simp
  have tr: "fst (start_gocloud ?c ?e)
      = [SetupLocal, RegisterService, Go (MetricsEndpoint []),
         Log (StdPrintln [GoString ''Starting Grpc service... 127.0.0.1:50051'']),
         NetListen ''127.0.0.1:50051'', Acquire (Listener ''127.0.0.1:50051''),
         Go (GrpcServe ''127.0.0.1:50051''), GrpcDial ''127.0.0.1:50051'',
         Log (StdPrintf ''Couldn't contact grpc server: bad target'' []),
         RegisterGateway, PrometheusRegister,
         Log (StdPrintln [GoString ''Starting HTTP service... 127.0.0.1:8080'']),
         HttpListenAndServe ''127.0.0.1:8080'']"
    using g6[THEN conjunct2] by (simp add: grpcAddr_def httpAddr_def)
  have "start_gocloud ?c ?e = (fst (start_gocloud ?c ?e), snd (start_gocloud ?c ?e))"
    by simp
  with ex tr d[THEN conjunct2] show ?thesis
    by simp
qed









end
